theory Spec2Isabelle
  imports Main
begin

section \<open>Python values\<close>

text \<open>
  The module \<open>graphql_server/__init__.py\<close> handles values that come out of a decoded
  request: \<open>None\<close>, booleans, numbers, strings, lists and dictionaries with string keys. The
  tuple is the one further kind of value the module builds itself (\<open>zip(*responses)\<close>).
  A float is kept as what it denotes: a finite float is \<open>mantissa * 2 ^ exponent\<close>; the module
  never computes with one, it only tests it for truth.
\<close>

datatype pyfloat = Finite int int | Infinite bool | NaN

datatype pyval =
    PNone
  | PBool bool
  | PInt int
  | PFloat pyfloat
  | PStr string
  | PList "pyval list"
  | PTuple "pyval list"
  | PDict "(string \<times> pyval) list"

type_synonym pydict = "(string \<times> pyval) list"

text \<open>Python's truth test, as \<open>if x\<close>, \<open>not x\<close> and \<open>x or y\<close> apply it.\<close>

fun float_nonzero :: "pyfloat \<Rightarrow> bool" where
  "float_nonzero (Finite m e) = (m \<noteq> 0)"
| "float_nonzero (Infinite s) = True"
| "float_nonzero NaN = True"

fun truthy :: "pyval \<Rightarrow> bool" where
  "truthy PNone = False"
| "truthy (PBool b) = b"
| "truthy (PInt i) = (i \<noteq> 0)"
| "truthy (PFloat f) = float_nonzero f"
| "truthy (PStr s) = (s \<noteq> [])"
| "truthy (PList xs) = (xs \<noteq> [])"
| "truthy (PTuple xs) = (xs \<noteq> [])"
| "truthy (PDict kvs) = (kvs \<noteq> [])"

definition py_or :: "pyval \<Rightarrow> pyval \<Rightarrow> pyval" where
  "py_or a b = (if truthy a then a else b)"

text \<open>\<open>d.get(k)\<close>: the value stored under \<open>k\<close>, \<open>None\<close> when the key is absent.\<close>

definition dict_get :: "pydict \<Rightarrow> string \<Rightarrow> pyval" where
  "dict_get d k = (case map_of d k of None \<Rightarrow> PNone | Some v \<Rightarrow> v)"

fun type_name :: "pyval \<Rightarrow> string" where
  "type_name PNone = ''NoneType''"
| "type_name (PBool b) = ''bool''"
| "type_name (PInt i) = ''int''"
| "type_name (PFloat f) = ''float''"
| "type_name (PStr s) = ''str''"
| "type_name (PList xs) = ''list''"
| "type_name (PTuple xs) = ''tuple''"
| "type_name (PDict kvs) = ''dict''"

fun isinstance_list :: "pyval \<Rightarrow> bool" where
  "isinstance_list (PList xs) = True"
| "isinstance_list v = False"

fun isinstance_dict :: "pyval \<Rightarrow> bool" where
  "isinstance_dict (PDict kvs) = True"
| "isinstance_dict v = False"

section \<open>Exceptions\<close>

text \<open>
  Modelled from the spec: the class \<open>HttpQueryError\<close>, which the module imports from
  \<open>graphql_server/error.py\<close>, a file that is not among the sources. The spec (section 7) has
  it carry a numeric status code, a message and optional response headers, and the module
  builds it as \<open>HttpQueryError(status_code, message, headers=...)\<close>.

  The other constructors are exceptions of Python itself. \<open>AttributeError t a\<close> is
  "\<open>t\<close> object has no attribute \<open>a\<close>"; \<open>NameError x\<close> is the read of the variable \<open>x\<close>
  of a function before any assignment to it; \<open>ValueError\<close> carries its message.
  \<open>SkipException\<close> is declared by the module and raised nowhere. \<open>isinstance_exc\<close> is the
  test an \<open>except\<close> clause makes.
\<close>

type_synonym headers = "(string \<times> string) list"

datatype exn =
    HttpQueryError int string "headers option"
  | SkipException
  | AttributeError string string
  | NameError string
  | ValueError string

datatype exc_class = HttpQueryError_class | SkipException_class

fun isinstance_exc :: "exn \<Rightarrow> exc_class \<Rightarrow> bool" where
  "isinstance_exc (HttpQueryError s m h) HttpQueryError_class = True"
| "isinstance_exc SkipException SkipException_class = True"
| "isinstance_exc e c = False"

section \<open>The collaborators\<close>

text \<open>
  The standard library functions the module calls: \<open>json.loads\<close> (\<open>None\<close> when it raises),
  \<open>json.dumps(data, indent, separators)\<close>, and the text \<open>str.format\<close> puts in place of
  \<open>{}\<close> for a value.
\<close>

record stdlib =
  json_loads :: "string \<Rightarrow> pyval option"
  json_dumps :: "pyval \<Rightarrow> nat option \<Rightarrow> string \<times> string \<Rightarrow> string"
  str_format :: "pyval \<Rightarrow> string"

text \<open>
  The GraphQL engine (\<open>graphql-core\<close>) is a parameter: \<open>parse\<close> returns a document or
  raises a \<open>GraphQLError\<close> or another exception; \<open>get_operation_ast\<close> returns the
  operation node (here: its \<open>operation\<close> attribute, an \<open>OperationType\<close>) or \<open>None\<close>;
  \<open>validate\<close> returns a list of errors; \<open>execute\<close> returns an \<open>ExecutionResult\<close>;
  \<open>format_error_default\<close> is the engine's \<open>format_error\<close>. The last four are taken to
  return, as their signatures say; the module has no handler around them.
\<close>

datatype operation_type = QUERY | MUTATION | SUBSCRIPTION

fun operation_value :: "operation_type \<Rightarrow> string" where
  "operation_value QUERY = ''query''"
| "operation_value MUTATION = ''mutation''"
| "operation_value SUBSCRIPTION = ''subscription''"

text \<open>An exception of another class: its class name and its \<open>str(e)\<close>.\<close>

datatype py_exception = PyException (exc_class_name: string) (exc_str: string)

text \<open>
  A \<open>GraphQLError\<close> is either one the engine made (opaque) or
  \<open>GraphQLError(message, original_error=e)\<close>, which the module builds.
\<close>

datatype 'e graphql_error =
    EngineGraphQLError 'e
  | GraphQLError string py_exception

datatype 'e ExecutionResult =
  ExecutionResult (data: pyval) (errors: "'e graphql_error list option")

datatype ('doc, 'e) parse_outcome =
    Document 'doc
  | RaiseGraphQLError 'e
  | RaiseException py_exception

record ('schema, 'doc, 'e) engine =
  parse :: "pyval \<Rightarrow> ('doc, 'e) parse_outcome"
  get_operation_ast :: "'doc \<Rightarrow> pyval \<Rightarrow> operation_type option"
  validate :: "'schema \<Rightarrow> 'doc \<Rightarrow> 'e graphql_error list"
  execute :: "'schema \<Rightarrow> 'doc \<Rightarrow> pyval \<Rightarrow> pyval \<Rightarrow> 'e ExecutionResult"
  format_error_default :: "'e graphql_error \<Rightarrow> pyval"

text \<open>The calls made to the engine, in the order they are made.\<close>

datatype ('schema, 'doc) engine_call =
    Parse pyval
  | GetOperationAst 'doc pyval
  | Validate 'schema 'doc
  | Execute 'schema 'doc pyval pyval

section \<open>The module\<close>

record GraphQLParams =
  query :: pyval
  variables :: pyval
  operation_name :: pyval

record GraphQLResponse =
  result :: pyval
  status_code :: int

text \<open>
  The functions keep the names and the argument order of the source, after the collaborators
  they call. Where a field selector has taken a name of the source (\<open>data\<close>, \<open>query\<close>,
  \<open>variables\<close>, \<open>operation_name\<close>), the bound variable is named \<open>payload\<close>, \<open>d\<close>, \<open>q\<close>,
  \<open>vars\<close> or \<open>opname\<close>.
\<close>

text \<open>
  A list comprehension whose element expression may raise: the elements are computed in
  order and the first exception ends the comprehension. The second form also collects the
  engine calls made on the way.
\<close>

fun comprehension :: "('a \<Rightarrow> exn + 'b) \<Rightarrow> 'a list \<Rightarrow> exn + 'b list" where
  "comprehension f [] = Inr []"
| "comprehension f (x # xs) =
     (case f x of
        Inl e \<Rightarrow> Inl e
      | Inr y \<Rightarrow> (case comprehension f xs of Inl e \<Rightarrow> Inl e | Inr ys \<Rightarrow> Inr (y # ys)))"

fun traced_comprehension ::
  "('a \<Rightarrow> (exn + 'b) \<times> 'c list) \<Rightarrow> 'a list \<Rightarrow> (exn + 'b list) \<times> 'c list" where
  "traced_comprehension f [] = (Inr [], [])"
| "traced_comprehension f (x # xs) =
     (case f x of
        (Inl e, t) \<Rightarrow> (Inl e, t)
      | (Inr y, t) \<Rightarrow>
          (case traced_comprehension f xs of
             (Inl e, t') \<Rightarrow> (Inl e, t @ t')
           | (Inr ys, t') \<Rightarrow> (Inr (y # ys), t @ t')))"

text \<open>\<open>max\<close> of a sequence of integers; Python raises on an empty one.\<close>

fun py_max :: "int list \<Rightarrow> exn + int" where
  "py_max [] = Inl (ValueError ''max() arg is an empty sequence'')"
| "py_max (x # xs) = Inr (fold max xs x)"


definition load_json_variables :: "stdlib \<Rightarrow> pyval \<Rightarrow> exn + pyval" where
  "load_json_variables lib vars =
     (case vars of
        PStr s \<Rightarrow>
          if truthy vars then
            (case json_loads lib s of
               Some v \<Rightarrow> Inr v
             | None \<Rightarrow> Inl (HttpQueryError 400 ''Variables are invalid JSON.'' None))
          else Inr vars
      | _ \<Rightarrow> Inr vars)"

definition get_graphql_params :: "stdlib \<Rightarrow> pyval \<Rightarrow> pydict \<Rightarrow> exn + GraphQLParams" where
  "get_graphql_params lib entry query_data =
     (case entry of
        PDict d \<Rightarrow>
          (let q = py_or (dict_get d ''query'') (dict_get query_data ''query'');
               vars = py_or (dict_get d ''variables'') (dict_get query_data ''variables'');
               opname = py_or (dict_get d ''operationName'')
                              (dict_get query_data ''operationName'')
           in case load_json_variables lib vars of
                Inl e \<Rightarrow> Inl e
              | Inr v \<Rightarrow> Inr \<lparr>query = q, variables = v, operation_name = opname\<rparr>)
      | _ \<Rightarrow> Inl (AttributeError (type_name entry) ''get''))"

text \<open>
  An \<open>ExecutionResult\<close> and an operation node are objects without a truth test of their
  own, so \<open>if execution_result\<close> and \<open>if operation_ast\<close> ask whether they are \<open>None\<close>; so
  does \<open>if not format_error\<close> of a function.
\<close>

definition execute_graphql_request ::
  "('schema, 'doc, 'e) engine \<Rightarrow> 'schema \<Rightarrow> GraphQLParams \<Rightarrow> bool
     \<Rightarrow> (exn + 'e ExecutionResult) \<times> ('schema, 'doc) engine_call list" where
  "execute_graphql_request eng schema params allow_only_query =
     (if \<not> truthy (query params) then
        (Inl (HttpQueryError 400 ''Must provide query string.'' None), [])
      else
        case parse eng (query params) of
          RaiseGraphQLError e \<Rightarrow>
            (Inr (ExecutionResult PNone (Some [EngineGraphQLError e])),
             [Parse (query params)])
        | RaiseException e \<Rightarrow>
            (Inr (ExecutionResult PNone (Some [GraphQLError (exc_str e) e])),
             [Parse (query params)])
        | Document document \<Rightarrow>
            (let t_ast =
                   (if allow_only_query
                    then [Parse (query params),
                          GetOperationAst document (operation_name params)]
                    else [Parse (query params)]);
                 operation_ast =
                   (if allow_only_query
                    then get_operation_ast eng document (operation_name params)
                    else None);
                 disallowed =
                   (case operation_ast of
                      Some operation \<Rightarrow>
                        if operation_value operation \<noteq> ''query''
                        then Some (operation_value operation) else None
                    | None \<Rightarrow> None)
             in case disallowed of
                  Some kind \<Rightarrow>
                    (Inl (HttpQueryError 405
                            (''Can only perform a '' @ kind
                               @ '' operation from a POST request.'')
                            (Some [(''Allow'', ''POST'')])),
                     t_ast)
                | None \<Rightarrow>
                    (let validation_errors = validate eng schema document
                     in if validation_errors \<noteq> [] then
                          (Inr (ExecutionResult PNone (Some validation_errors)),
                           t_ast @ [Validate schema document])
                        else
                          (Inr (execute eng schema document (variables params)
                                  (operation_name params)),
                           t_ast @ [Validate schema document,
                                    Execute schema document (variables params)
                                      (operation_name params)]))))"

definition get_response ::
  "('schema, 'doc, 'e) engine \<Rightarrow> 'schema \<Rightarrow> GraphQLParams \<Rightarrow> exc_class \<Rightarrow> bool
     \<Rightarrow> (exn + 'e ExecutionResult option) \<times> ('schema, 'doc) engine_call list" where
  "get_response eng schema params catch allow_only_query =
     (case execute_graphql_request eng schema params allow_only_query of
        (Inl e, t) \<Rightarrow> if isinstance_exc e catch then (Inr None, t) else (Inl e, t)
      | (Inr execution_result, t) \<Rightarrow> (Inr (Some execution_result), t))"

text \<open>
  \<open>run_http_query\<close> hands its \<open>**execute_options\<close> to \<open>get_response\<close>, which does not
  use them: they are left out. The second component of the result is the list of engine
  calls made, also when the call raises.
\<close>

definition run_http_query ::
  "stdlib \<Rightarrow> ('schema, 'doc, 'e) engine \<Rightarrow> 'schema \<Rightarrow> string \<Rightarrow> pyval \<Rightarrow> pydict option
     \<Rightarrow> bool \<Rightarrow> bool
     \<Rightarrow> (exn + 'e ExecutionResult option list \<times> GraphQLParams list)
         \<times> ('schema, 'doc) engine_call list" where
  "run_http_query lib eng schema request_method payload query_data batch_enabled catch =
     (if request_method \<noteq> ''get'' \<and> request_method \<noteq> ''post'' then
        (Inl (HttpQueryError 405 ''GraphQL only supports GET and POST requests.''
                (Some [(''Allow'', ''GET, POST'')])), [])
      else
        let catch_exc = (if catch then HttpQueryError_class else SkipException_class);
            is_batch = isinstance_list payload;
            is_get_request = (request_method = ''get'');
            allow_only_query = is_get_request
        in
          if \<not> is_batch \<and> \<not> isinstance_dict payload then
            (Inl (HttpQueryError 400
                    (''GraphQL params should be a dict. Received ''
                       @ str_format lib payload @ ''.'') None), [])
          else if is_batch \<and> \<not> batch_enabled then
            (Inl (HttpQueryError 400 ''Batch GraphQL requests are not enabled.'' None), [])
          else
            let entries = (case payload of PList xs \<Rightarrow> xs | _ \<Rightarrow> [payload])
            in
              if entries = [] then
                (Inl (HttpQueryError 400 ''Received an empty list in the batch request.''
                        None), [])
              else
                let extra_data =
                      (if \<not> is_batch
                       then (case query_data of Some d \<Rightarrow> d | None \<Rightarrow> [])
                       else [])
                in
                  case comprehension (\<lambda>entry. get_graphql_params lib entry extra_data)
                         entries of
                    Inl e \<Rightarrow> (Inl e, [])
                  | Inr all_params \<Rightarrow>
                      (case traced_comprehension
                              (\<lambda>params. get_response eng schema params catch_exc
                                           allow_only_query)
                              all_params of
                         (Inl e, t) \<Rightarrow> (Inl e, t)
                       | (Inr responses, t) \<Rightarrow> (Inr (responses, all_params), t)))"

definition format_execution_result ::
  "('schema, 'doc, 'e) engine \<Rightarrow> 'e ExecutionResult option
     \<Rightarrow> ('e graphql_error \<Rightarrow> pyval) option \<Rightarrow> exn + GraphQLResponse" where
  "format_execution_result eng execution_result format_error =
     (case execution_result of
        Some er \<Rightarrow>
          (case errors er of
             Some (e # es) \<Rightarrow>
               (case format_error of
                  None \<Rightarrow>
                    Inr \<lparr>result = PDict [(''errors'',
                                           PList (map (format_error_default eng) (e # es)))],
                         status_code = 200\<rparr>
                | Some f \<Rightarrow> Inl (NameError ''format_errors''))
           | _ \<Rightarrow> Inr \<lparr>result = PDict [(''data'', data er)], status_code = 200\<rparr>)
      | None \<Rightarrow> Inr \<lparr>result = PNone, status_code = 200\<rparr>)"

definition encode_execution_results ::
  "('schema, 'doc, 'e) engine \<Rightarrow> 'e ExecutionResult option list
     \<Rightarrow> ('e graphql_error \<Rightarrow> pyval) option \<Rightarrow> bool \<Rightarrow> (pyval \<Rightarrow> 'out)
     \<Rightarrow> exn + 'out \<times> int" where
  "encode_execution_results eng execution_results format_error is_batch encode =
     (case comprehension (\<lambda>execution_result.
               format_execution_result eng execution_result format_error)
             execution_results of
        Inl e \<Rightarrow> Inl e
      | Inr responses \<Rightarrow>
          (case responses of
             [] \<Rightarrow> Inl (ValueError ''not enough values to unpack (expected 2, got 0)'')
           | r # rs \<Rightarrow>
               (case py_max (map status_code responses) of
                  Inl e \<Rightarrow> Inl e
                | Inr code \<Rightarrow>
                    Inr (encode (if \<not> is_batch then result r
                                 else PTuple (map result responses)), code))))"

definition load_json_body :: "stdlib \<Rightarrow> string \<Rightarrow> exn + pyval" where
  "load_json_body lib body =
     (case json_loads lib body of
        Some v \<Rightarrow> Inr v
      | None \<Rightarrow> Inl (HttpQueryError 400 ''POST body sent invalid JSON.'' None))"

section \<open>Example collaborators\<close>

text \<open>
  A small standard library and a small engine, to run the module on concrete requests. The
  library knows the JSON texts of three values and takes any other text as invalid; the
  engine's documents are the query texts it accepts; \<open>{ b }\<close> fails validation, the
  fragment-only document has no operation.
\<close>

definition example_lib :: stdlib where
  \<open>example_lib =
     \<lparr>json_loads = (\<lambda>s. if s = ''{"a":1}'' then Some (PDict [(''a'', PInt 1)])
                         else if s = ''{}'' then Some (PDict [])
                         else if s = ''[1]'' then Some (PList [PInt 1])
                         else None),
      json_dumps = (\<lambda>v indent seps.
                      if v = PDict [(''a'', PInt 1)] \<and> indent = None \<and> seps = ('','', '':'')
                      then ''{"a":1}''
                      else if v = PDict [] then ''{}''
                      else ''null''),
      str_format = type_name\<rparr>\<close>

definition example_engine :: "(unit, string, string) engine" where
  "example_engine =
     \<lparr>parse = (\<lambda>q. case q of
                   PStr s \<Rightarrow>
                     if s = ''{ a }'' \<or> s = ''{ b }'' \<or> s = ''mutation { m }'' \<or> s = ''fragment F on T { a }''
                     then Document s else RaiseGraphQLError ''Syntax Error''
                 | _ \<Rightarrow> RaiseException (PyException ''TypeError'' ''body must be a string'')),
      get_operation_ast = (\<lambda>d n. if d = ''{ a }'' \<or> d = ''{ b }'' then Some QUERY
                                  else if d = ''mutation { m }'' then Some MUTATION
                                  else None),
      validate = (\<lambda>s d. if d = ''{ b }'' then [EngineGraphQLError ''Cannot query field b''] else []),
      execute = (\<lambda>s d v n. ExecutionResult (PDict [(''a'', PInt 1)]) None),
      format_error_default = (\<lambda>e. case e of
                                 EngineGraphQLError m \<Rightarrow> PDict [(''message'', PStr m)]
                               | GraphQLError m x \<Rightarrow> PDict [(''message'', PStr m)])\<rparr>"


section \<open>List comprehensions\<close>



lemma comprehension_total:
  "(\<And>x. x \<in> set xs \<Longrightarrow> f x = Inr (g x)) \<Longrightarrow> comprehension f xs = Inr (map g xs)"
  by (induction xs) auto

lemma traced_comprehension_Inr:
  "traced_comprehension f xs = (Inr ys, t) \<Longrightarrow>
     length ys = length xs \<and> t = concat (map (\<lambda>x. snd (f x)) xs)"
  by (induction xs arbitrary: ys t) (auto split: sum.splits prod.splits)






lemma comprehension_Inl:
  "comprehension f xs = Inl e \<Longrightarrow> \<exists>x\<in>set xs. f x = Inl e"
  by (induction xs) (auto split: sum.splits)

lemma traced_comprehension_Inl:
  "fst (traced_comprehension f xs) = Inl e \<Longrightarrow> \<exists>x\<in>set xs. fst (f x) = Inl e"
  by (induction xs) (auto split: sum.splits prod.splits)

section \<open>What the functions raise and return\<close>





lemma format_execution_result_Suppressed:
  "format_execution_result eng None format_error = Inr \<lparr>result = PNone, status_code = 200\<rparr>"
  by (simp add: format_execution_result_def)

lemma format_execution_result_no_errors:
  "errors er = None \<or> errors er = Some [] \<Longrightarrow>
     format_execution_result eng (Some er) format_error
       = Inr \<lparr>result = PDict [(''data'', data er)], status_code = 200\<rparr>"
  by (auto simp: format_execution_result_def)

lemma format_execution_result_default_formatter:
  "errors er = Some (e # es) \<Longrightarrow>
     format_execution_result eng (Some er) None
       = Inr \<lparr>result = PDict [(''errors'', PList (map (format_error_default eng) (e # es)))],
              status_code = 200\<rparr>"
  by (simp add: format_execution_result_def)


lemma execute_graphql_request_raises_cases:
  assumes "fst (execute_graphql_request eng schema params a) = Inl e"
  shows "e = HttpQueryError 400 ''Must provide query string.'' None
     \<or> a \<and> e = HttpQueryError 405 ''Can only perform a mutation operation from a POST request.''
                 (Some [(''Allow'', ''POST'')])
     \<or> a \<and> e = HttpQueryError 405
                 ''Can only perform a subscription operation from a POST request.''
                 (Some [(''Allow'', ''POST'')])"
proof (cases "truthy (query params)")
  case False
  with assms show ?thesis by (simp add: execute_graphql_request_def)
next
  case True
  show ?thesis
  proof (cases "parse eng (query params)")
    case (Document d)
    show ?thesis
    proof (cases "a")
      case False
      with assms True Document show ?thesis
        by (simp add: execute_graphql_request_def Let_def split: if_splits)
    next
      case a: True
      show ?thesis
      proof (cases "get_operation_ast eng d (operation_name params)")
        case None
        with assms True Document a show ?thesis
          by (simp add: execute_graphql_request_def Let_def split: if_splits)
      next
        case (Some op)
        with assms True Document a show ?thesis
          by (cases op) (simp_all add: execute_graphql_request_def Let_def split: if_splits)
      qed
    qed
  next
    case (RaiseGraphQLError x)
    with assms True show ?thesis by (simp add: execute_graphql_request_def)
  next
    case (RaiseException x)
    with assms True show ?thesis by (simp add: execute_graphql_request_def)
  qed
qed


lemma load_json_variables_str:
  "load_json_variables lib (PStr s) =
     (if s = [] then Inr (PStr s)
      else case json_loads lib s of
             Some v \<Rightarrow> Inr v
           | None \<Rightarrow> Inl (HttpQueryError 400 ''Variables are invalid JSON.'' None))"
  by (simp add: load_json_variables_def)

lemma load_json_variables_structured:
  "load_json_variables lib (PDict d) = Inr (PDict d)"
  "load_json_variables lib PNone = Inr PNone"
  by (simp_all add: load_json_variables_def)

lemma load_json_variables_raises:
  "load_json_variables lib vars = Inl e \<Longrightarrow>
     e = HttpQueryError 400 ''Variables are invalid JSON.'' None"
  by (cases vars) (simp_all add: load_json_variables_def split: if_splits option.splits)

lemma get_graphql_params_raises:
  assumes "get_graphql_params lib entry fallback = Inl e"
  shows "e = HttpQueryError 400 ''Variables are invalid JSON.'' None
     \<or> e = AttributeError (type_name entry) ''get''"
proof (cases "isinstance_dict entry")
  case False
  with assms show ?thesis
    by (cases entry) (simp_all add: get_graphql_params_def)
next
  case True
  then obtain d where "entry = PDict d" by (cases entry) simp_all
  with assms load_json_variables_raises show ?thesis
    by (fastforce simp: get_graphql_params_def Let_def split: sum.splits)
qed


lemma get_response_raises:
  "fst (get_response eng schema params c a) = Inl e \<Longrightarrow>
     fst (execute_graphql_request eng schema params a) = Inl e"
  by (auto simp: get_response_def split: prod.splits sum.splits if_splits)

lemma run_http_query_entries_raises:
  assumes "fst (case comprehension (\<lambda>entry. get_graphql_params lib entry extra) entries of
                  Inl e \<Rightarrow> (Inl e, [])
                | Inr all_params \<Rightarrow>
                    (case traced_comprehension
                            (\<lambda>params. get_response eng schema params c a) all_params of
                       (Inl e, t) \<Rightarrow> (Inl e, t)
                     | (Inr responses, t) \<Rightarrow> (Inr (responses, all_params), t))) = Inl e"
  shows "(\<exists>m. e = HttpQueryError 400 m None)
          \<or> (\<exists>t. e = AttributeError t ''get'')
          \<or> (\<exists>m. e = HttpQueryError 405 m (Some [(''Allow'', ''POST'')]))"
proof (cases "comprehension (\<lambda>entry. get_graphql_params lib entry extra) entries")
  case (Inl e')
  with assms have "e' = e" by simp
  with Inl comprehension_Inl [of "\<lambda>entry. get_graphql_params lib entry extra" entries e]
  obtain x where "get_graphql_params lib x extra = Inl e" by auto
  from get_graphql_params_raises [OF this] show ?thesis by blast
next
  case (Inr ps)
  with assms
  have "fst (traced_comprehension (\<lambda>params. get_response eng schema params c a) ps) = Inl e"
    by (simp split: prod.splits sum.splits)
  from traced_comprehension_Inl [OF this] obtain p
    where "fst (get_response eng schema p c a) = Inl e" by blast
  from execute_graphql_request_raises_cases [OF get_response_raises [OF this]]
  show ?thesis by blast
qed

lemma run_http_query_raises:
  assumes "fst (run_http_query lib eng schema request_method payload query_data batch_enabled
                  catch) = Inl e"
  shows "e = HttpQueryError 405 ''GraphQL only supports GET and POST requests.''
               (Some [(''Allow'', ''GET, POST'')])
             \<and> request_method \<noteq> ''get'' \<and> request_method \<noteq> ''post''
         \<or> (request_method = ''get'' \<or> request_method = ''post'')
             \<and> ((\<exists>m. e = HttpQueryError 400 m None)
                  \<or> (\<exists>t. e = AttributeError t ''get'')
                  \<or> (\<exists>m. e = HttpQueryError 405 m (Some [(''Allow'', ''POST'')])))"
proof (cases "request_method \<noteq> ''get'' \<and> request_method \<noteq> ''post''")
  case True
  with assms show ?thesis by (simp add: run_http_query_def)
next
  case False
  with assms
  have "(\<exists>m. e = HttpQueryError 400 m None)
          \<or> (\<exists>t. e = AttributeError t ''get'')
          \<or> (\<exists>m. e = HttpQueryError 405 m (Some [(''Allow'', ''POST'')]))"
    unfolding run_http_query_def Let_def
    by (auto split: if_splits dest: run_http_query_entries_raises)
  with False show ?thesis by blast
qed

lemma get_graphql_params_query:
  "get_graphql_params lib (PDict d) fallback = Inr params \<Longrightarrow>
     query params = py_or (dict_get d ''query'') (dict_get fallback ''query'')"
  by (auto simp: get_graphql_params_def Let_def split: sum.splits)


lemma format_execution_result_shape:
  "format_execution_result eng execution_result format_error = Inr r \<Longrightarrow>
     result r = PNone \<or> (\<exists>kvs. result r = PDict kvs)"
  by (auto simp: format_execution_result_def split: option.splits list.splits)





section \<open>The claims\<close>

text \<open>
  C1. For an executed outcome with a non-empty errors list and a formatter supplied by the
  caller, \<open>format_execution_result\<close> is to return the body
  \<open>{errors: [format_error(e) for e in errors]}\<close>. The code binds \<open>format_errors\<close> only when
  no formatter is supplied and then calls \<open>format_errors\<close>: with any supplied formatter and
  any non-empty errors list the call reads an unbound local variable and raises. (With no
  formatter the engine's default is used, and an outcome without errors gives
  \<open>{data: data}\<close>: \<open>format_execution_result_default_formatter\<close>,
  \<open>format_execution_result_no_errors\<close>.)
\<close>

theorem format_execution_result_supplied_formatter_raises:
  "format_execution_result eng (Some (ExecutionResult d (Some (e # es)))) (Some format_error)
     = Inl (NameError ''format_errors'')"
  by (simp add: format_execution_result_def)






text \<open>
  C4. For a non-empty list of outcomes \<open>encode_execution_results\<close> is to return the
  maximum of the per-item status codes and a body that is a sequence exactly for a batch.
  Whenever it returns it does so (\<open>encode_execution_results_returns\<close>, with
  \<open>format_execution_result_shape\<close> for the single body), and with no formatter it returns
  for every non-empty list (\<open>encode_execution_results_default_formatter\<close>). With a formatter,
  which is the function's required argument, an outcome that carries errors makes the call
  raise instead of returning: the comprehension over \<open>format_execution_result\<close> reads the
  unbound \<open>format_errors\<close>.
\<close>

theorem encode_execution_results_supplied_formatter_raises:
  "encode_execution_results eng [Some (ExecutionResult d (Some (e # es)))] (Some format_error)
       is_batch encode
     = Inl (NameError ''format_errors'')"
  by (simp add: encode_execution_results_def format_execution_result_def)

text \<open>
  C5. A request whose query (after the fallback of \<open>get_graphql_params\<close>, see
  \<open>get_graphql_params_query\<close>) is the empty string or absent raises
  \<open>HttpQueryError(400, "Must provide query string.")\<close> with no call to the engine, whatever
  the verb; \<open>get_response\<close> then either passes the error on or, under containment, gives
  \<open>None\<close>: never an executed outcome.
\<close>

theorem execute_graphql_request_missing_query:
  assumes "query params = PStr [] \<or> query params = PNone"
  shows "execute_graphql_request eng schema params allow_only_query
           = (Inl (HttpQueryError 400 ''Must provide query string.'' None), [])
       \<and> get_response eng schema params catch allow_only_query
           = (if catch = HttpQueryError_class then Inr None
              else Inl (HttpQueryError 400 ''Must provide query string.'' None), [])"
  using assms
  by (cases catch) (auto simp: execute_graphql_request_def get_response_def)

theorem execute_graphql_request_missing_query_witness:
  "execute_graphql_request example_engine ()
       \<lparr>query = PStr [], variables = PNone, operation_name = PNone\<rparr> True
     = (Inl (HttpQueryError 400 ''Must provide query string.'' None), [])
   \<and> get_response example_engine ()
       \<lparr>query = PNone, variables = PNone, operation_name = PNone\<rparr> HttpQueryError_class False
     = (Inr None, [])
   \<and> get_graphql_params example_lib (PDict [(''query'', PStr [])]) []
     = Inr \<lparr>query = PNone, variables = PNone, operation_name = PNone\<rparr>"
  using execute_graphql_request_missing_query
          [of "\<lparr>query = PStr [], variables = PNone, operation_name = PNone\<rparr>"
              example_engine "()" True HttpQueryError_class]
        execute_graphql_request_missing_query
          [of "\<lparr>query = PNone, variables = PNone, operation_name = PNone\<rparr>"
              example_engine "()" False HttpQueryError_class]
  by (simp add: get_graphql_params_def load_json_variables_def dict_get_def py_or_def)



text \<open>
  C7. For a document that parses and whose operation, as \<open>get_operation_ast\<close> resolves it
  for the request's operation name, is a mutation or a subscription: with
  \<open>allow_only_query\<close> (the read-only verb) the request raises \<open>HttpQueryError(405)\<close>, its
  message naming the operation kind, its headers \<open>{Allow: POST}\<close>, before validation; without
  it (the write verb) the same request goes on to \<open>validate\<close> and, when validation reports no
  error, to \<open>execute\<close>.
\<close>

theorem execute_graphql_request_read_only_verb:
  assumes "truthy (query params)"
      and "parse eng (query params) = Document document"
      and "get_operation_ast eng document (operation_name params) = Some operation"
      and "operation = MUTATION \<or> operation = SUBSCRIPTION"
  shows "execute_graphql_request eng schema params True
           = (Inl (HttpQueryError 405
                     (''Can only perform a '' @ operation_value operation
                        @ '' operation from a POST request.'')
                     (Some [(''Allow'', ''POST'')])),
              [Parse (query params), GetOperationAst document (operation_name params)])
       \<and> execute_graphql_request eng schema params False
           = (if validate eng schema document \<noteq> [] then
                (Inr (ExecutionResult PNone (Some (validate eng schema document))),
                 [Parse (query params), Validate schema document])
              else
                (Inr (execute eng schema document (variables params) (operation_name params)),
                 [Parse (query params), Validate schema document,
                  Execute schema document (variables params) (operation_name params)]))"
  using assms
  by (auto simp: execute_graphql_request_def Let_def)

theorem execute_graphql_request_read_only_verb_witness:
  "execute_graphql_request example_engine ()
       \<lparr>query = PStr ''mutation { m }'', variables = PNone, operation_name = PNone\<rparr> True
     = (Inl (HttpQueryError 405 ''Can only perform a mutation operation from a POST request.''
               (Some [(''Allow'', ''POST'')])),
        [Parse (PStr ''mutation { m }''), GetOperationAst ''mutation { m }'' PNone])
   \<and> execute_graphql_request example_engine ()
       \<lparr>query = PStr ''mutation { m }'', variables = PNone, operation_name = PNone\<rparr> False
     = (Inr (ExecutionResult (PDict [(''a'', PInt 1)]) None),
        [Parse (PStr ''mutation { m }''), Validate () ''mutation { m }'',
         Execute () ''mutation { m }'' PNone PNone])"
  using execute_graphql_request_read_only_verb
          [of "\<lparr>query = PStr ''mutation { m }'', variables = PNone, operation_name = PNone\<rparr>"
              example_engine "''mutation { m }''" MUTATION "()"]
  by (simp add: example_engine_def)



text \<open>
  C9. \<open>run_http_query\<close> accepts the method strings \<open>get\<close> and \<open>post\<close> and no other: for
  every other string (the upper-case \<open>GET\<close> and \<open>POST\<close> among them) it raises
  \<open>HttpQueryError(405, "GraphQL only supports GET and POST requests.")\<close> with the header
  \<open>Allow: GET, POST\<close>, whatever the payload and the options and with no call to the engine;
  and that error is raised for no request whose method is \<open>get\<close> or \<open>post\<close>.
\<close>

theorem run_http_query_method_check:
  "(request_method \<noteq> ''get'' \<and> request_method \<noteq> ''post'' \<longrightarrow>
      run_http_query lib eng schema request_method payload query_data batch_enabled catch
        = (Inl (HttpQueryError 405 ''GraphQL only supports GET and POST requests.''
                  (Some [(''Allow'', ''GET, POST'')])), []))
   \<and> (fst (run_http_query lib eng schema request_method payload query_data batch_enabled
              catch)
        = Inl (HttpQueryError 405 ''GraphQL only supports GET and POST requests.''
                 (Some [(''Allow'', ''GET, POST'')]))
      \<longrightarrow> request_method \<noteq> ''get'' \<and> request_method \<noteq> ''post'')"
proof (intro conjI impI)
  assume "request_method \<noteq> ''get'' \<and> request_method \<noteq> ''post''"
  then show "run_http_query lib eng schema request_method payload query_data batch_enabled catch
        = (Inl (HttpQueryError 405 ''GraphQL only supports GET and POST requests.''
                  (Some [(''Allow'', ''GET, POST'')])), [])"
    by (simp add: run_http_query_def)
next
  assume "fst (run_http_query lib eng schema request_method payload query_data batch_enabled
              catch)
        = Inl (HttpQueryError 405 ''GraphQL only supports GET and POST requests.''
                 (Some [(''Allow'', ''GET, POST'')]))"
  from run_http_query_raises [OF this]
  show "request_method \<noteq> ''get''" and "request_method \<noteq> ''post''" by auto
qed

theorem run_http_query_method_check_witness:
  "run_http_query example_lib example_engine () ''GET'' (PDict [(''query'', PStr ''{ a }'')])
       None False False
     = (Inl (HttpQueryError 405 ''GraphQL only supports GET and POST requests.''
               (Some [(''Allow'', ''GET, POST'')])), [])
   \<and> run_http_query example_lib example_engine () ''POST'' (PInt 7) None True True
     = (Inl (HttpQueryError 405 ''GraphQL only supports GET and POST requests.''
               (Some [(''Allow'', ''GET, POST'')])), [])
   \<and> fst (run_http_query example_lib example_engine () ''get''
            (PDict [(''query'', PStr ''{ a }'')]) None False False)
     = Inr ([Some (ExecutionResult (PDict [(''a'', PInt 1)]) None)],
            [\<lparr>query = PStr ''{ a }'', variables = PNone, operation_name = PNone\<rparr>])"
  using run_http_query_method_check
          [of "''GET''" example_lib example_engine "()" "PDict [(''query'', PStr ''{ a }'')]"
              None False False]
        run_http_query_method_check
          [of "''POST''" example_lib example_engine "()" "PInt 7" None True True]
  by (simp add: run_http_query_def get_graphql_params_def load_json_variables_def
        dict_get_def py_or_def get_response_def execute_graphql_request_def example_engine_def)

text \<open>
  C10. With \<open>allow_only_query\<close> true and \<open>get_operation_ast\<close> returning \<open>None\<close> for the
  request's operation name, no \<open>HttpQueryError(405)\<close> is raised: the request goes on to
  \<open>validate\<close> and \<open>execute\<close> and returns what it returns without the restriction.
\<close>

theorem execute_graphql_request_no_operation:
  assumes "truthy (query params)"
      and "parse eng (query params) = Document document"
      and "get_operation_ast eng document (operation_name params) = None"
  shows "fst (execute_graphql_request eng schema params True)
           = fst (execute_graphql_request eng schema params False)
       \<and> execute_graphql_request eng schema params True
           = (if validate eng schema document \<noteq> [] then
                (Inr (ExecutionResult PNone (Some (validate eng schema document))),
                 [Parse (query params), GetOperationAst document (operation_name params),
                  Validate schema document])
              else
                (Inr (execute eng schema document (variables params) (operation_name params)),
                 [Parse (query params), GetOperationAst document (operation_name params),
                  Validate schema document,
                  Execute schema document (variables params) (operation_name params)]))"
  using assms
  by (auto simp: execute_graphql_request_def Let_def)

theorem execute_graphql_request_no_operation_witness:
  "execute_graphql_request example_engine ()
       \<lparr>query = PStr ''fragment F on T { a }'', variables = PNone,
        operation_name = PStr ''Missing''\<rparr> True
     = (Inr (ExecutionResult (PDict [(''a'', PInt 1)]) None),
        [Parse (PStr ''fragment F on T { a }''),
         GetOperationAst ''fragment F on T { a }'' (PStr ''Missing''),
         Validate () ''fragment F on T { a }'',
         Execute () ''fragment F on T { a }'' PNone (PStr ''Missing'')])"
  using execute_graphql_request_no_operation
          [of "\<lparr>query = PStr ''fragment F on T { a }'', variables = PNone,
                operation_name = PStr ''Missing''\<rparr>"
              example_engine "''fragment F on T { a }''" "()"]
  by (simp add: example_engine_def)

end
